theory Spec2Isabelle
  imports Complex_Main
begin

section \<open>Data model of stdp_pl_synapse_hom_ax_delay.h\<close>

text \<open>
  The C++ type \<^verbatim>\<open>double\<close> is read as \<^typ>\<open>real\<close>: all arithmetic below is exact.
  Times are in milliseconds, as \<^verbatim>\<open>get_ms()\<close> returns them.
\<close>

text \<open>
  A failed \<^verbatim>\<open>assert\<close> aborts the run (assertions are taken to be compiled in);
  \<^verbatim>\<open>TypeMismatch\<close> is what reading a dictionary entry of the wrong type raises;
  \<^verbatim>\<open>BadProperty\<close> is the configuration error.
\<close>

datatype error = AssertionFailed | TypeMismatch | BadProperty

text \<open>\<^verbatim>\<open>class STDPPLHomAxDelayCommonProperties\<close>: the data members common to all connections.\<close>

record STDPPLHomAxDelayCommonProperties =
  tau_plus :: real
  tau_plus_inv :: real
  lambda :: real
  alpha :: real
  mu :: real
  axonal_delay :: real

text \<open>
  What the code reads from its base class \<^verbatim>\<open>Connection< targetidentifierT >\<close>:
  \<^verbatim>\<open>get_delay()\<close>, \<^verbatim>\<open>get_delay_steps()\<close> and \<^verbatim>\<open>get_rport()\<close>. The target node is passed to the
  operations explicitly.
\<close>

record ConnectionBase =
  delay :: real
  delay_steps :: int
  rport :: int

text \<open>The data members of each connection, after those of the base class.\<close>

record stdp_pl_synapse_hom_ax_delay =
  base :: ConnectionBase
  weight :: real
  Kplus :: real
  t_lastspike :: real

text \<open>
  \<^verbatim>\<open>adjustentry\<close> (adjustentry.h), with the fields the code reads and writes and the
  argument order of its constructor.
\<close>

record adjustentry =
  a_t_lastspike :: real
  old_weight :: real
  t_received :: real
  tid :: int
  syn_id :: int
  lcid :: int

text \<open>
  The incoming event: its time stamp and the sender's spike data (thread, synapse type and
  local connection index).
\<close>

record Event =
  stamp :: real
  sender_spike_data :: "int \<times> int \<times> int"

text \<open>
  What \<^verbatim>\<open>e()\<close> hands to the receiver: the fields the code has set on the event before
  delivering it.
\<close>

record delivery =
  d_stamp :: real
  d_weight :: real
  d_delay_steps :: int
  d_rport :: int

text \<open>
  The target node, as far as the synapse uses it: the postsynaptic spike times it has
  archived, its postsynaptic trace as a function of time, and its queue of synapses to
  check.
\<close>

record Node =
  history :: "real list"
  K_value :: "real \<Rightarrow> real"
  synapses_to_check :: "adjustentry list"

text \<open>
  Modelled from the spec: \<^verbatim>\<open>Node::get_history\<close> is not part of the source file. The
  spike-history provider returns, in stored order, the spike times of the window that is
  half-open on the lower bound and inclusive on the upper bound.
\<close>

definition get_history :: "Node \<Rightarrow> real \<Rightarrow> real \<Rightarrow> real list" where
  "get_history target t1 t2 = filter (\<lambda>t. t1 < t \<and> t \<le> t2) (history target)"

text \<open>
  Modelled from the spec: \<^verbatim>\<open>Node::get_K_value\<close> is not part of the source file. It is the
  decayed postsynaptic trace at a time, an arbitrary function of the target.
\<close>

definition get_K_value :: "Node \<Rightarrow> real \<Rightarrow> real" where
  "get_K_value target t = K_value target t"

text \<open>
  Modelled from the spec: \<^verbatim>\<open>Node::add_synapse_to_check\<close> is not part of the source file. It
  enqueues the entry with the target's pending corrections.
\<close>

definition add_synapse_to_check :: "Node \<Rightarrow> adjustentry \<Rightarrow> Node" where
  "add_synapse_to_check target a =
     target\<lparr>synapses_to_check := synapses_to_check target @ [a]\<rparr>"

section \<open>Facilitation and depression\<close>

text \<open>
  \<^verbatim>\<open>std::pow\<close> on a base \<open>w \<ge> 0\<close> and an exponent \<open>m \<ge> 0\<close>: \<open>pow(w, 0) = 1\<close> also at
  \<open>w = 0\<close>, and \<open>pow(0, m) = 0\<close> for \<open>m > 0\<close>. (A negative base with a fractional exponent
  is NaN in C++, and a zero base with a negative exponent is infinite: neither is a real
  number.)
\<close>

definition std_pow :: "real \<Rightarrow> real \<Rightarrow> real" where
  "std_pow w m = (if m = 0 then 1 else w powr m)"

definition facilitate :: "real \<Rightarrow> real \<Rightarrow> STDPPLHomAxDelayCommonProperties \<Rightarrow> real" where
  "facilitate w kplus cp = w + (lambda cp * std_pow w (mu cp) * kplus)"

definition depress :: "real \<Rightarrow> real \<Rightarrow> STDPPLHomAxDelayCommonProperties \<Rightarrow> real" where
  "depress w kminus cp =
     (let new_w = w - (lambda cp * alpha cp * w * kminus)
      in if new_w > 0 then new_w else 0)"

section \<open>send: the forward update\<close>

text \<open>
  The \<^verbatim>\<open>while ( start != finish )\<close> loop of \<^verbatim>\<open>send\<close> over the spikes that \<^verbatim>\<open>get_history\<close>
  returned. The arguments are \<open>stdp_eps\<close> (from the connection manager), the common
  properties, \<open>t_lastspike_\<close>, \<open>Kplus_\<close>, the dendritic delay, the remaining spikes and the
  weight.
\<close>

fun facilitate_loop ::
  "real \<Rightarrow> STDPPLHomAxDelayCommonProperties \<Rightarrow> real \<Rightarrow> real \<Rightarrow> real \<Rightarrow> real list \<Rightarrow> real
   \<Rightarrow> error + real" where
  "facilitate_loop eps cp t_last kp dd [] w = Inr w"
| "facilitate_loop eps cp t_last kp dd (t # ts) w =
     (let minus_dt = t_last + axonal_delay cp - (t + dd)
      in if minus_dt < -1.0 * eps
         then facilitate_loop eps cp t_last kp dd ts
                (facilitate w (kp * exp (minus_dt * tau_plus_inv cp)) cp)
         else Inl AssertionFailed)"

text \<open>
  \<^verbatim>\<open>send\<close>, with \<open>stdp_eps\<close> and the target as arguments. It returns the connection, the
  target (whose queue may have grown) and what was delivered; a failed assertion returns
  the error. The lines that print to \<^verbatim>\<open>std::cout\<close> have no effect on the state and are left
  out.
\<close>

definition send ::
  "real \<Rightarrow> Event \<Rightarrow> STDPPLHomAxDelayCommonProperties \<Rightarrow> Node \<Rightarrow> stdp_pl_synapse_hom_ax_delay
   \<Rightarrow> error + (stdp_pl_synapse_hom_ax_delay \<times> Node \<times> delivery)" where
  "send eps e cp target s =
     (let t_spike = stamp e;
          dendritic_delay = delay (base s) - axonal_delay cp;
          spikes = get_history target
                     (t_lastspike s - dendritic_delay + axonal_delay cp)
                     (t_spike - dendritic_delay + axonal_delay cp)
      in case facilitate_loop eps cp (t_lastspike s) (Kplus s) dendritic_delay spikes (weight s) of
           Inl err \<Rightarrow> Inl err
         | Inr w1 \<Rightarrow>
             (let old_w = w1;
                  K_minus = get_K_value target (t_spike + axonal_delay cp - dendritic_delay);
                  w2 = depress w1 K_minus cp;
                  d = \<lparr>d_stamp = t_spike, d_weight = w2,
                       d_delay_steps = delay_steps (base s), d_rport = rport (base s)\<rparr>;
                  target' =
                    (if axonal_delay cp > dendritic_delay
                     then add_synapse_to_check target
                            \<lparr>a_t_lastspike = t_lastspike s, old_weight = old_w,
                             t_received = t_spike + axonal_delay cp - dendritic_delay,
                             tid = fst (sender_spike_data e),
                             syn_id = fst (snd (sender_spike_data e)),
                             lcid = snd (snd (sender_spike_data e))\<rparr>
                     else target)
              in Inr (s\<lparr>weight := w2,
                        Kplus := Kplus s * exp ((t_lastspike s - t_spike) * tau_plus_inv cp) + 1.0,
                        t_lastspike := t_spike\<rparr>,
                      target', d)))"

section \<open>adjust_weight: the retroactive correction\<close>

text \<open>
  \<^verbatim>\<open>adjust_weight\<close>, with \<open>stdp_eps\<close> and the target as arguments. It returns the
  connection, the entry (whose \<open>old_weight_\<close> it overwrites) and what was delivered. The
  call of \<^verbatim>\<open>get_history\<close> around the missing spike only prints what it finds and is left
  out; the time stamp of the delivered event is kept in milliseconds.
\<close>

definition adjust_weight ::
  "real \<Rightarrow> adjustentry \<Rightarrow> real \<Rightarrow> STDPPLHomAxDelayCommonProperties \<Rightarrow> Node
   \<Rightarrow> stdp_pl_synapse_hom_ax_delay
   \<Rightarrow> error + (stdp_pl_synapse_hom_ax_delay \<times> adjustentry \<times> delivery)" where
  "adjust_weight eps a missing_spike cp target s =
     (let ori_weight = weight s;
          w0 = old_weight a;
          dendritic_delay = delay (base s) - axonal_delay cp;
          t_spike = t_received a - axonal_delay cp + dendritic_delay;
          minus_dt = a_t_lastspike a + axonal_delay cp - (missing_spike + dendritic_delay)
      in if minus_dt < -1.0 * eps
         then
           (let Kplus_corr = (Kplus s - 1.0) / exp ((a_t_lastspike a - t_spike) / tau_plus cp);
                w1 = facilitate w0 (Kplus_corr * exp (minus_dt / tau_plus cp)) cp;
                a' = a\<lparr>old_weight := w1\<rparr>;
                K_minus = get_K_value target (t_spike + axonal_delay cp - dendritic_delay);
                w2 = depress w1 K_minus cp
            in Inr (s\<lparr>weight := w2\<rparr>, a',
                    \<lparr>d_stamp = t_spike, d_weight = w2 - ori_weight,
                     d_delay_steps = delay_steps (base s), d_rport = rport (base s)\<rparr>))
         else Inl AssertionFailed)"

section \<open>Spike trains\<close>

text \<open>
  A presynaptic spike train: each event is delivered by \<open>send\<close> when the target has the
  given history and trace. The synapse and the target's queue of synapses to check are
  carried from one event to the next; the deliveries are collected in order. An assertion
  failure aborts the whole run.
\<close>

fun send_train ::
  "real \<Rightarrow> STDPPLHomAxDelayCommonProperties \<Rightarrow> (Event \<times> Node) list
   \<Rightarrow> stdp_pl_synapse_hom_ax_delay \<Rightarrow> adjustentry list
   \<Rightarrow> error + (stdp_pl_synapse_hom_ax_delay \<times> adjustentry list \<times> delivery list)" where
  "send_train eps cp [] s q = Inr (s, q, [])"
| "send_train eps cp ((e, target) # rest) s q =
     (case send eps e cp (target\<lparr>synapses_to_check := q\<rparr>) s of
        Inl err \<Rightarrow> Inl err
      | Inr (s', target', d) \<Rightarrow>
          (case send_train eps cp rest s' (synapses_to_check target') of
             Inl err \<Rightarrow> Inl err
           | Inr (s'', q'', ds) \<Rightarrow> Inr (s'', q'', d # ds)))"

text \<open>
  The history returns no spikes during a train: every window that \<open>send\<close> asks for is
  empty. The window of an event starts at the time stamp of the event before it, which is
  what \<open>send\<close> leaves in \<open>t_lastspike_\<close>.
\<close>

fun no_post_spikes ::
  "STDPPLHomAxDelayCommonProperties \<Rightarrow> (Event \<times> Node) list \<Rightarrow> stdp_pl_synapse_hom_ax_delay
   \<Rightarrow> bool" where
  "no_post_spikes cp [] s = True"
| "no_post_spikes cp ((e, target) # rest) s =
     (get_history target
        (t_lastspike s - (delay (base s) - axonal_delay cp) + axonal_delay cp)
        (stamp e - (delay (base s) - axonal_delay cp) + axonal_delay cp) = []
      \<and> no_post_spikes cp rest (s\<lparr>t_lastspike := stamp e\<rparr>))"

text \<open>
  Pure depression along a train, in the words of the specification: each presynaptic spike
  replaces the weight \<open>w\<close> by \<open>max(0, w - lambda * alpha * w * K_minus)\<close>, with the
  postsynaptic trace sampled at \<open>t_spike + axonal_delay - dendritic_delay\<close>.
\<close>

fun pure_depression ::
  "STDPPLHomAxDelayCommonProperties \<Rightarrow> real \<Rightarrow> (Event \<times> Node) list \<Rightarrow> real \<Rightarrow> real list" where
  "pure_depression cp total_delay [] w = []"
| "pure_depression cp total_delay ((e, target) # rest) w =
     (let K_minus = get_K_value target
                      (stamp e + axonal_delay cp - (total_delay - axonal_delay cp));
          w' = max 0 (w - lambda cp * alpha cp * w * K_minus)
      in w' # pure_depression cp total_delay rest w')"

section \<open>The forward update in the words of the specification\<close>

text \<open>
  The forward update as the specification describes it: query the window
  \<open>(t_last_spike - dendritic_delay + axonal_delay, t_spike - dendritic_delay + axonal_delay]\<close>,
  facilitate once per returned spike in the order returned, depress with the trace sampled
  at \<open>t_spike + axonal_delay - dendritic_delay\<close>, then update the presynaptic trace and the
  time of the last spike.
\<close>

definition spec_forward_update ::
  "Event \<Rightarrow> STDPPLHomAxDelayCommonProperties \<Rightarrow> Node \<Rightarrow> stdp_pl_synapse_hom_ax_delay
   \<Rightarrow> stdp_pl_synapse_hom_ax_delay" where
  "spec_forward_update e cp target s =
     (let t_spike = stamp e;
          t_last_spike = t_lastspike s;
          trace_pre = Kplus s;
          dendritic_delay = delay (base s) - axonal_delay cp;
          posts = get_history target
                    (t_last_spike - dendritic_delay + axonal_delay cp)
                    (t_spike - dendritic_delay + axonal_delay cp);
          w_fac = foldl
                    (\<lambda>w t_post.
                       w + lambda cp * std_pow w (mu cp) * trace_pre
                           * exp ((t_last_spike + axonal_delay cp - (t_post + dendritic_delay))
                                  / tau_plus cp))
                    (weight s) posts;
          K_minus = get_K_value target (t_spike + axonal_delay cp - dendritic_delay);
          w_dep = max 0 (w_fac - lambda cp * alpha cp * w_fac * K_minus)
      in s\<lparr>weight := w_dep,
            Kplus := trace_pre * exp ((t_last_spike - t_spike) / tau_plus cp) + 1.0,
            t_lastspike := t_spike\<rparr>)"

section \<open>Status dictionaries\<close>

text \<open>
  A \<^verbatim>\<open>DictionaryDatum\<close> maps names to data. The names are those of \<^verbatim>\<open>nest::names\<close> the
  code uses, and any other.
\<close>

datatype Name = N_weight | N_Kplus | N_size_of | N_other string






text \<open>
  The default constructor of the connection, on a base-class part \<open>b\<close>.
\<close>

definition default_synapse :: "ConnectionBase \<Rightarrow> stdp_pl_synapse_hom_ax_delay" where
  "default_synapse b = \<lparr>base = b, weight = 1.0, Kplus = 0.0, t_lastspike = 0.0\<rparr>"



section \<open>Configuring the axonal delay\<close>

text \<open>
  Modelled from the spec: the body of \<^verbatim>\<open>STDPPLHomAxDelayCommonProperties::set_status\<close> is
  not part of the source file, which only declares it. The specification says that setting
  an axonal delay greater than the connection's total delay is a configuration error that
  is rejected at configuration time and not clamped; an accepted value is stored.
\<close>

definition set_axonal_delay ::
  "real \<Rightarrow> real \<Rightarrow> STDPPLHomAxDelayCommonProperties \<Rightarrow> error + STDPPLHomAxDelayCommonProperties"
  where
  "set_axonal_delay total_delay ad cp =
     (if ad > total_delay then Inl BadProperty else Inr (cp\<lparr>axonal_delay := ad\<rparr>))"

section \<open>Example inputs\<close>

text \<open>
  The parameters of the specification's scenarios: \<open>tau_plus = 20\<close>, \<open>lambda = 0.01\<close>,
  \<open>alpha = 1.05\<close>, \<open>mu = 0.4\<close>, with no axonal delay and with an axonal delay of 3 ms.
\<close>

definition ex_cp :: STDPPLHomAxDelayCommonProperties where
  "ex_cp = \<lparr>tau_plus = 20, tau_plus_inv = 1 / 20, lambda = 1 / 100, alpha = 105 / 100,
            mu = 4 / 10, axonal_delay = 0\<rparr>"

definition ex_cp_ax :: STDPPLHomAxDelayCommonProperties where
  "ex_cp_ax = \<lparr>tau_plus = 20, tau_plus_inv = 1 / 20, lambda = 1 / 100, alpha = 105 / 100,
               mu = 4 / 10, axonal_delay = 3\<rparr>"

text \<open>A synapse with a total delay of \<open>dl\<close> ms whose last presynaptic spike was at 10 ms.\<close>

definition ex_syn :: "real \<Rightarrow> stdp_pl_synapse_hom_ax_delay" where
  "ex_syn dl = \<lparr>base = \<lparr>delay = dl, delay_steps = 10, rport = 0\<rparr>,
               weight = 1, Kplus = 1, t_lastspike = 10\<rparr>"

text \<open>A presynaptic spike at \<open>t\<close> ms.\<close>

definition ex_event :: "real \<Rightarrow> Event" where
  "ex_event t = \<lparr>stamp = t, sender_spike_data = (0, 5, 7)\<rparr>"

text \<open>A target with the given spike times and a constant trace \<open>k\<close>.\<close>

definition ex_target :: "real list \<Rightarrow> real \<Rightarrow> Node" where
  "ex_target h k = \<lparr>history = h, K_value = (\<lambda>t. k), synapses_to_check = []\<rparr>"

text \<open>The entry that the forward update at 20 ms enqueues with an axonal delay of 3 ms.\<close>

definition ex_entry :: adjustentry where
  "ex_entry = \<lparr>a_t_lastspike = 10, old_weight = 1, t_received = 22, tid = 0, syn_id = 5,
               lcid = 7\<rparr>"

section \<open>The facilitation loop\<close>

lemma facilitate_loop_append:
  "facilitate_loop eps cp t_last kp dd (xs @ ys) w =
     (case facilitate_loop eps cp t_last kp dd xs w of
        Inl err \<Rightarrow> Inl err
      | Inr w1 \<Rightarrow> facilitate_loop eps cp t_last kp dd ys w1)"
  by (induction xs arbitrary: w) (simp_all add: Let_def)

lemma facilitate_loop_ok:
  assumes "\<forall>t\<in>set ts. t_last + axonal_delay cp - (t + dd) < - eps"
  shows "facilitate_loop eps cp t_last kp dd ts w =
           Inr (foldl (\<lambda>w t. facilitate w
                   (kp * exp ((t_last + axonal_delay cp - (t + dd)) * tau_plus_inv cp)) cp) w ts)"
  using assms by (induction ts arbitrary: w) (simp_all add: Let_def)

lemma facilitate_loop_abort:
  assumes "\<exists>t\<in>set ts. \<not> t_last + axonal_delay cp - (t + dd) < - eps"
  shows "facilitate_loop eps cp t_last kp dd ts w = Inl AssertionFailed"
  using assms by (induction ts arbitrary: w) (auto simp add: Let_def)

lemma depress_max: "depress w k cp = max 0 (w - lambda cp * alpha cp * w * k)"
  by (simp add: depress_def Let_def max_def)

lemma depress_nonneg: "0 \<le> depress w k cp"
  by (simp add: depress_def Let_def)

lemma std_pow_nonneg: "0 \<le> std_pow w m"
  by (simp add: std_pow_def)

lemma facilitate_mono:
  assumes "0 \<le> lambda cp" "0 \<le> k"
  shows "w \<le> facilitate w k cp"
  using assms by (simp add: facilitate_def std_pow_nonneg)

lemma facilitate_loop_mono:
  assumes "facilitate_loop eps cp t_last kp dd ts w = Inr w1" "0 \<le> lambda cp" "0 \<le> kp"
  shows "w \<le> w1"
  using assms
proof (induction ts arbitrary: w)
  case Nil
  then show ?case by simp
next
  case (Cons t ts)
  let ?k = "kp * exp ((t_last + axonal_delay cp - (t + dd)) * tau_plus_inv cp)"
  from Cons.prems(1) have ok: "t_last + axonal_delay cp - (t + dd) < - eps"
    and rest: "facilitate_loop eps cp t_last kp dd ts (facilitate w ?k cp) = Inr w1"
    by (auto simp add: Let_def split: if_splits)
  have "0 \<le> ?k" using Cons.prems(3) by simp
  then have "w \<le> facilitate w ?k cp" using Cons.prems(2) by (rule facilitate_mono[rotated])
  also have "\<dots> \<le> w1" using Cons.IH[OF rest Cons.prems(2,3)] .
  finally show ?case .
qed

lemma foldl_facilitate_spec:
  assumes "tau_plus_inv cp = 1 / tau_plus cp"
  shows "foldl (\<lambda>w t. facilitate w
            (kp * exp ((t_last + axonal_delay cp - (t + dd)) * tau_plus_inv cp)) cp) w ts
       = foldl (\<lambda>w t_post. w + lambda cp * std_pow w (mu cp) * kp
            * exp ((t_last + axonal_delay cp - (t_post + dd)) / tau_plus cp)) w ts"
  by (induction ts arbitrary: w) (simp_all add: facilitate_def assms mult.assoc)

lemma sorted_get_history: "sorted (history target) \<Longrightarrow> sorted (get_history target t1 t2)"
  by (simp add: get_history_def sorted_wrt_filter)

section \<open>What a successful call returns\<close>

lemma send_Inr_D:
  assumes "send eps e cp target s = Inr (s', target', d)"
  defines "dd \<equiv> delay (base s) - axonal_delay cp"
  defines "posts \<equiv> get_history target (t_lastspike s - dd + axonal_delay cp)
                     (stamp e - dd + axonal_delay cp)"
  shows "\<exists>w1. facilitate_loop eps cp (t_lastspike s) (Kplus s) dd posts (weight s) = Inr w1
     \<and> s' = s\<lparr>weight := depress w1 (get_K_value target (stamp e + axonal_delay cp - dd)) cp,
              Kplus := Kplus s * exp ((t_lastspike s - stamp e) * tau_plus_inv cp) + 1,
              t_lastspike := stamp e\<rparr>
     \<and> d = \<lparr>d_stamp = stamp e, d_weight = weight s',
            d_delay_steps = delay_steps (base s), d_rport = rport (base s)\<rparr>
     \<and> target' = (if axonal_delay cp > dd
          then add_synapse_to_check target
                 \<lparr>a_t_lastspike = t_lastspike s, old_weight = w1,
                  t_received = stamp e + axonal_delay cp - dd,
                  tid = fst (sender_spike_data e),
                  syn_id = fst (snd (sender_spike_data e)),
                  lcid = snd (snd (sender_spike_data e))\<rparr>
          else target)"
  using assms(1) unfolding send_def Let_def dd_def posts_def
  by (auto split: sum.splits)

lemma send_base: "send eps e cp target s = Inr (s', target', d) \<Longrightarrow> base s' = base s"
  by (drule send_Inr_D) auto

lemma adjust_weight_Inr_D:
  assumes "adjust_weight eps a missing_spike cp target s = Inr (s', a', d)"
  shows "s' = s\<lparr>weight := weight s'\<rparr> \<and> a' = a\<lparr>old_weight := old_weight a'\<rparr>
       \<and> weight s' = depress (old_weight a')
            (get_K_value target (t_received a - axonal_delay cp + (delay (base s) - axonal_delay cp)
               + axonal_delay cp - (delay (base s) - axonal_delay cp))) cp
       \<and> a_t_lastspike a + axonal_delay cp
            - (missing_spike + (delay (base s) - axonal_delay cp)) < - eps"
  using assms unfolding adjust_weight_def Let_def
  by (auto split: if_splits)

lemma send_no_spikes:
  assumes "get_history target
             (t_lastspike s - (delay (base s) - axonal_delay cp) + axonal_delay cp)
             (stamp e - (delay (base s) - axonal_delay cp) + axonal_delay cp) = []"
  shows "\<exists>target' d. send eps e cp target s =
           Inr (s\<lparr>weight := depress (weight s)
                     (get_K_value target
                        (stamp e + axonal_delay cp - (delay (base s) - axonal_delay cp))) cp,
                   Kplus := Kplus s * exp ((t_lastspike s - stamp e) * tau_plus_inv cp) + 1,
                   t_lastspike := stamp e\<rparr>, target', d)
         \<and> d_weight d = depress (weight s)
                     (get_K_value target
                        (stamp e + axonal_delay cp - (delay (base s) - axonal_delay cp))) cp"
  unfolding send_def Let_def assms by simp

section \<open>Trains without postsynaptic spikes\<close>

lemma send_train_no_entries:
  assumes "axonal_delay cp = 0" "0 < delay (base s)"
    and "send_train eps cp evs s q = Inr (s', q', ds)"
  shows "q' = q"
  using assms(2,3)
proof (induction evs arbitrary: s q ds)
  case Nil
  then show ?case by simp
next
  case (Cons ev evs)
  obtain e target where ev: "ev = (e, target)" by (cases ev)
  from Cons.prems(2) obtain s1 target1 d1 ds1 where
    one: "send eps e cp (target\<lparr>synapses_to_check := q\<rparr>) s = Inr (s1, target1, d1)"
    and rest: "send_train eps cp evs s1 (synapses_to_check target1) = Inr (s', q', ds1)"
    unfolding ev by (auto split: sum.splits)
  from send_Inr_D[OF one] assms(1) Cons.prems(1)
  have q1: "synapses_to_check target1 = q" by auto
  have "0 < delay (base s1)" using send_base[OF one] Cons.prems(1) by simp
  from Cons.IH[OF this rest] q1 show ?case by simp
qed

lemma no_post_spikes_cong:
  "base s = base s' \<Longrightarrow> t_lastspike s = t_lastspike s'
   \<Longrightarrow> no_post_spikes cp evs s = no_post_spikes cp evs s'"
proof (induction evs arbitrary: s s')
  case Nil
  then show ?case by simp
next
  case (Cons ev evs)
  obtain e target where ev: "ev = (e, target)" by (cases ev)
  have "no_post_spikes cp evs (s\<lparr>t_lastspike := stamp e\<rparr>)
      = no_post_spikes cp evs (s'\<lparr>t_lastspike := stamp e\<rparr>)"
    by (rule Cons.IH) (simp_all add: Cons.prems)
  then show ?case unfolding ev by (simp add: Cons.prems)
qed

lemma send_train_pure_depression:
  assumes "no_post_spikes cp evs s"
  shows "\<exists>s' q' ds. send_train eps cp evs s q = Inr (s', q', ds)
           \<and> map d_weight ds = pure_depression cp (delay (base s)) evs (weight s)"
  using assms
proof (induction evs arbitrary: s q)
  case Nil
  then show ?case by simp
next
  case (Cons ev evs)
  obtain e target where ev: "ev = (e, target)" by (cases ev)
  let ?tg = "target\<lparr>synapses_to_check := q\<rparr>"
  let ?K = "get_K_value target (stamp e + axonal_delay cp - (delay (base s) - axonal_delay cp))"
  let ?s1 = "s\<lparr>weight := depress (weight s) ?K cp,
               Kplus := Kplus s * exp ((t_lastspike s - stamp e) * tau_plus_inv cp) + 1,
               t_lastspike := stamp e\<rparr>"
  have hist: "get_history ?tg = get_history target" and K: "get_K_value ?tg = get_K_value target"
    by (simp_all add: get_history_def get_K_value_def fun_eq_iff)
  from Cons.prems have empty: "get_history ?tg
             (t_lastspike s - (delay (base s) - axonal_delay cp) + axonal_delay cp)
             (stamp e - (delay (base s) - axonal_delay cp) + axonal_delay cp) = []"
    and nps: "no_post_spikes cp evs (s\<lparr>t_lastspike := stamp e\<rparr>)"
    unfolding ev hist by simp_all
  from send_no_spikes[OF empty, of eps] obtain target1 d1 where
    one: "send eps e cp ?tg s = Inr (?s1, target1, d1)"
    and d1: "d_weight d1 = depress (weight s) ?K cp"
    unfolding K by blast
  have "no_post_spikes cp evs ?s1"
    using nps no_post_spikes_cong[of ?s1 "s\<lparr>t_lastspike := stamp e\<rparr>"] by simp
  from Cons.IH[OF this, of "synapses_to_check target1"] obtain s' q' ds where
    rest: "send_train eps cp evs ?s1 (synapses_to_check target1) = Inr (s', q', ds)"
    and ws: "map d_weight ds = pure_depression cp (delay (base ?s1)) evs (weight ?s1)"
    by blast
  have "send_train eps cp (ev # evs) s q = Inr (s', q', d1 # ds)"
    unfolding ev send_train.simps one sum.case prod.case rest ..
  moreover have "map d_weight (d1 # ds) = pure_depression cp (delay (base s)) (ev # evs) (weight s)"
    unfolding ev using ws d1 by (simp add: Let_def depress_max)
  ultimately show ?case by blast
qed

lemma depress_step_le:
  assumes "0 \<le> w" "0 \<le> lambda cp * alpha cp * k"
  shows "max 0 (w - lambda cp * alpha cp * w * k) \<le> w"
proof -
  have "lambda cp * alpha cp * w * k = w * (lambda cp * alpha cp * k)" by simp
  moreover have "0 \<le> w * (lambda cp * alpha cp * k)" using assms by (rule mult_nonneg_nonneg)
  ultimately have "w - lambda cp * alpha cp * w * k \<le> w" by linarith
  then show ?thesis using assms(1) by (rule_tac max.boundedI)
qed

lemma pure_depression_sorted:
  assumes "0 \<le> w" "\<forall>(e, target) \<in> set evs. \<forall>t. 0 \<le> lambda cp * alpha cp * K_value target t"
  shows "sorted_wrt (\<ge>) (w # pure_depression cp dl evs w)
       \<and> (\<forall>v \<in> set (pure_depression cp dl evs w). 0 \<le> v)"
  using assms
proof (induction evs arbitrary: w)
  case Nil
  then show ?case by simp
next
  case (Cons ev evs)
  obtain e target where ev: "ev = (e, target)" by (cases ev)
  let ?k = "get_K_value target (stamp e + axonal_delay cp - (dl - axonal_delay cp))"
  let ?w = "max 0 (w - lambda cp * alpha cp * w * ?k)"
  have k: "0 \<le> lambda cp * alpha cp * ?k" using Cons.prems(2) unfolding ev
    by (simp add: get_K_value_def)
  have le: "?w \<le> w" using depress_step_le[OF Cons.prems(1) k] .
  have nn: "0 \<le> ?w" by simp
  have rest: "\<forall>(e, target) \<in> set evs. \<forall>t. 0 \<le> lambda cp * alpha cp * K_value target t"
    using Cons.prems(2) by simp
  from Cons.IH[OF nn rest]
  have srt: "sorted_wrt (\<ge>) (?w # pure_depression cp dl evs ?w)"
    and pos: "\<forall>v \<in> set (pure_depression cp dl evs ?w). 0 \<le> v" by simp_all
  have "\<forall>v \<in> set (pure_depression cp dl evs ?w). v \<le> w"
    using srt le by auto
  then show ?case unfolding ev using srt pos le nn by (simp add: Let_def)
qed

lemma depress_strict:
  assumes "0 \<le> w"
  shows "(depress w k cp < w) = (0 < w \<and> 0 < lambda cp * alpha cp * k)"
proof -
  have eq: "w - lambda cp * alpha cp * w * k = w * (1 - lambda cp * alpha cp * k)"
    by (simp add: algebra_simps)
  show ?thesis
  proof (cases "w = 0")
    case True
    then show ?thesis by (simp add: depress_def)
  next
    case False
    then have wp: "0 < w" using assms by simp
    have "(w * (1 - lambda cp * alpha cp * k) < w) = (0 < lambda cp * alpha cp * k)"
      using wp by (simp add: mult_less_cancel_left2)
    moreover have "(max 0 (w * (1 - lambda cp * alpha cp * k)) < w)
        = (w * (1 - lambda cp * alpha cp * k) < w)"
      using wp by simp
    ultimately show ?thesis using wp unfolding depress_max eq by simp
  qed
qed

section \<open>How small exp (- 37) is\<close>

lemma exp_double_lower:
  assumes "c \<le> exp (y::real)" "0 \<le> c" "d \<le> c * c"
  shows "d \<le> exp (2 * y)"
proof -
  have "c * c \<le> exp y * exp y" using assms(1,2) by (intro mult_mono) simp_all
  also have "\<dots> = exp (2 * y)" by (simp add: exp_add[symmetric])
  finally show ?thesis using assms(3) by simp
qed

lemma exp_37_lower: "(2::real) ^ 53 < exp 37"
proof -
  have q: "1 + (37 / 512) + (37 / 512)\<^sup>2 / 2 \<le> exp (37 / 512 :: real)"
    by (rule exp_lower_Taylor_quadratic) simp
  have s0: "(10748767 / 10000000 :: real) \<le> exp (37 / 512)"
    using q by (simp add: power2_eq_square)
  have s1: "(11553599 / 10000000 :: real) \<le> exp (37 / 256)"
    using exp_double_lower[OF s0, of "11553599 / 10000000"] by simp
  have s2: "(3337141 / 2500000 :: real) \<le> exp (37 / 128)"
    using exp_double_lower[OF s1, of "3337141 / 2500000"] by simp
  have s3: "(1113651 / 625000 :: real) \<le> exp (37 / 64)"
    using exp_double_lower[OF s2, of "1113651 / 625000"] by simp
  have s4: "(15874797 / 5000000 :: real) \<le> exp (37 / 32)"
    using exp_double_lower[OF s3, of "15874797 / 5000000"] by simp
  have s5: "(10080367 / 1000000 :: real) \<le> exp (37 / 16)"
    using exp_double_lower[OF s4, of "10080367 / 1000000"] by simp
  have s6: "(10161379 / 100000 :: real) \<le> exp (37 / 8)"
    using exp_double_lower[OF s5, of "10161379 / 100000"] by simp
  have s7: "(5162681 / 500 :: real) \<le> exp (37 / 4)"
    using exp_double_lower[OF s6, of "5162681 / 500"] by simp
  have s8: "(106613100 :: real) \<le> exp (37 / 2)"
    using exp_double_lower[OF s7, of "106613100"] by simp
  have s9: "(11366353000000000 :: real) \<le> exp (37)"
    using exp_double_lower[OF s8, of "11366353000000000"] by simp
  show ?thesis using s9 by simp
qed

lemma exp_minus_37_upper: "exp (- 37 :: real) < 1 / 2 ^ 53"
proof -
  have "exp (- 37 :: real) = 1 / exp 37" by (simp add: exp_minus inverse_eq_divide)
  also have "\<dots> < 1 / 2 ^ 53"
    using exp_37_lower by (intro divide_strict_left_mono) simp_all
  finally show ?thesis .
qed

section \<open>The example inputs\<close>

lemmas ex_defs = ex_cp_def ex_cp_ax_def ex_syn_def ex_event_def ex_target_def ex_entry_def

text \<open>
  \<open>send\<close> itself does not look at the sign of the dendritic delay: with a total delay of
  1 ms and an axonal delay of 3 ms it runs with a dendritic delay of -2 ms.
\<close>

lemma send_negative_dendritic_delay:
  "delay (base (ex_syn 1)) - axonal_delay ex_cp_ax = - 2
 \<and> (\<exists>r. send (1 / 1000000) (ex_event 20) ex_cp_ax (ex_target [] (1 / 2)) (ex_syn 1) = Inr r)"
  by (simp add: send_def get_history_def Let_def ex_defs)

section \<open>The correction against the full-information forward update\<close>

text \<open>
  Over the real numbers the correction inverts the trace update of the forward update
  exactly. Let a forward update on the target \<open>T0\<close> enqueue the entry \<open>a\<close>, and let \<open>T1\<close> be
  the target with full information: in the window of that update its history shows the
  same spikes followed by the missing one. Then \<open>adjust_weight\<close>, invoked once with \<open>a\<close> and
  the missing spike right after the forward update, leaves the connection in the state in
  which the single forward update on \<open>T1\<close> leaves it; if the missing spike fails the
  assertion, it fails it in both. The cached \<open>tau_plus_inv_\<close> is the reciprocal of
  \<open>tau_plus_\<close>, as its declaration says. This is a statement about exact arithmetic only:
  it uses \<open>(Kplus * E + 1 - 1) / E = Kplus\<close>, which the \<^verbatim>\<open>double\<close> of the program does not
  satisfy.
\<close>

theorem correction_matches_full_information:
  assumes wf: "tau_plus_inv cp = 1 / tau_plus cp"
    and fwd: "send eps e cp T0 s = Inr (s1, T0', d1)"
    and enq: "synapses_to_check T0' = synapses_to_check T0 @ [a]"
    and full: "get_history T1
                 (t_lastspike s - (delay (base s) - axonal_delay cp) + axonal_delay cp)
                 (stamp e - (delay (base s) - axonal_delay cp) + axonal_delay cp)
             = get_history T0
                 (t_lastspike s - (delay (base s) - axonal_delay cp) + axonal_delay cp)
                 (stamp e - (delay (base s) - axonal_delay cp) + axonal_delay cp)
               @ [missing_spike]"
  shows "(\<exists>s2 a' d2 T1' dF.
            adjust_weight eps a missing_spike cp T1 s1 = Inr (s2, a', d2)
          \<and> send eps e cp T1 s = Inr (s2, T1', dF)
          \<and> d_weight d2 = weight s2 - weight s1)
       \<or> (adjust_weight eps a missing_spike cp T1 s1 = Inl AssertionFailed
          \<and> send eps e cp T1 s = Inl AssertionFailed)"
proof -
  define dd where "dd = delay (base s) - axonal_delay cp"
  define lo where "lo = t_lastspike s - dd + axonal_delay cp"
  define hi where "hi = stamp e - dd + axonal_delay cp"
  define mdt where "mdt = t_lastspike s + axonal_delay cp - (missing_spike + dd)"
  define E where "E = exp ((t_lastspike s - stamp e) * tau_plus_inv cp)"
  from send_Inr_D[OF fwd] obtain w1 where
    loop0: "facilitate_loop eps cp (t_lastspike s) (Kplus s) dd (get_history T0 lo hi) (weight s)
              = Inr w1"
    and s1: "s1 = s\<lparr>weight := depress w1 (get_K_value T0 (stamp e + axonal_delay cp - dd)) cp,
                    Kplus := Kplus s * E + 1, t_lastspike := stamp e\<rparr>"
    and T0': "T0' = (if axonal_delay cp > dd
          then add_synapse_to_check T0
                 \<lparr>a_t_lastspike = t_lastspike s, old_weight = w1,
                  t_received = stamp e + axonal_delay cp - dd,
                  tid = fst (sender_spike_data e),
                  syn_id = fst (snd (sender_spike_data e)),
                  lcid = snd (snd (sender_spike_data e))\<rparr>
          else T0)"
    unfolding dd_def lo_def hi_def E_def by blast
  have a: "a_t_lastspike a = t_lastspike s \<and> old_weight a = w1
         \<and> t_received a = stamp e + axonal_delay cp - dd"
    using enq unfolding T0' by (auto simp add: add_synapse_to_check_def split: if_splits)
  have base1: "base s1 = base s" and kp1: "Kplus s1 = Kplus s * E + 1"
    unfolding s1 by simp_all
  have E': "exp ((t_lastspike s - stamp e) / tau_plus cp) = E"
    unfolding E_def wf by simp
  have Epos: "E \<noteq> 0" unfolding E_def by simp
  have mexp: "exp (mdt / tau_plus cp) = exp (mdt * tau_plus_inv cp)"
    unfolding wf by simp
  have k: "(Kplus s1 - 1) * exp (mdt / tau_plus cp) / exp ((t_lastspike s - stamp e) / tau_plus cp)
         = Kplus s * exp (mdt * tau_plus_inv cp)"
    unfolding kp1 E' mexp using Epos by simp
  have loop1: "facilitate_loop eps cp (t_lastspike s) (Kplus s) dd (get_history T1 lo hi) (weight s)
     = (if mdt < - eps
        then Inr (facilitate w1 (Kplus s * exp (mdt * tau_plus_inv cp)) cp)
        else Inl AssertionFailed)"
    using full unfolding dd_def[symmetric] lo_def[symmetric] hi_def[symmetric]
    by (simp add: facilitate_loop_append loop0 Let_def mdt_def)
  show ?thesis
  proof (cases "mdt < - eps")
    case True
    let ?w = "facilitate w1 (Kplus s * exp (mdt * tau_plus_inv cp)) cp"
    let ?s2 = "s1\<lparr>weight := depress ?w (get_K_value T1 (stamp e + axonal_delay cp - dd)) cp\<rparr>"
    have adj: "adjust_weight eps a missing_spike cp T1 s1
       = Inr (?s2, a\<lparr>old_weight := ?w\<rparr>,
              \<lparr>d_stamp = stamp e, d_weight = weight ?s2 - weight s1,
               d_delay_steps = delay_steps (base s), d_rport = rport (base s)\<rparr>)"
      unfolding adjust_weight_def Let_def base1 dd_def[symmetric]
      using True a k[unfolded mdt_def] by (simp add: mdt_def)
    have "\<exists>T1' dF. send eps e cp T1 s = Inr (?s2, T1', dF)"
      unfolding send_def Let_def dd_def[symmetric] lo_def[symmetric] hi_def[symmetric] loop1
      using True by (simp add: s1 E_def)
    with adj show ?thesis by auto
  next
    case False
    have "adjust_weight eps a missing_spike cp T1 s1 = Inl AssertionFailed"
      unfolding adjust_weight_def Let_def base1 dd_def[symmetric]
      using False a by (simp add: mdt_def)
    moreover have "send eps e cp T1 s = Inl AssertionFailed"
      unfolding send_def Let_def dd_def[symmetric] lo_def[symmetric] hi_def[symmetric] loop1
      using False by simp
    ultimately show ?thesis by simp
  qed
qed

theorem correction_matches_full_information_witness:
  "tau_plus_inv ex_cp_ax = 1 / tau_plus ex_cp_ax
 \<and> get_history (ex_target [15, 21] (1 / 2)) 12 22
     = get_history (ex_target [15] (1 / 2)) 12 22 @ [21]
 \<and> (\<exists>s1 T0' d1 a s2 a' d2 T1' dF.
       send (1 / 1000000) (ex_event 20) ex_cp_ax (ex_target [15] (1 / 2)) (ex_syn 4)
         = Inr (s1, T0', d1)
     \<and> synapses_to_check T0' = synapses_to_check (ex_target [15] (1 / 2)) @ [a]
     \<and> adjust_weight (1 / 1000000) a 21 ex_cp_ax (ex_target [15, 21] (1 / 2)) s1
         = Inr (s2, a', d2)
     \<and> send (1 / 1000000) (ex_event 20) ex_cp_ax (ex_target [15, 21] (1 / 2)) (ex_syn 4)
         = Inr (s2, T1', dF)
     \<and> d_weight d2 = weight s2 - weight s1)"
proof -
  let ?T0 = "ex_target [15] (1 / 2)" and ?T1 = "ex_target [15, 21] (1 / 2)"
  let ?cp = ex_cp_ax and ?s = "ex_syn 4" and ?e = "ex_event 20" and ?eps = "1 / 1000000 :: real"
  have wf: "tau_plus_inv ?cp = 1 / tau_plus ?cp" by (simp add: ex_defs)
  have lo: "t_lastspike ?s - (delay (base ?s) - axonal_delay ?cp) + axonal_delay ?cp = 12"
    and hi: "stamp ?e - (delay (base ?s) - axonal_delay ?cp) + axonal_delay ?cp = 22"
    by (simp_all add: ex_defs)
  have h0: "get_history ?T0 12 22 = [15]" and h1: "get_history ?T1 12 22 = [15, 21]"
    by (simp_all add: get_history_def ex_defs)
  have ok: "\<forall>t \<in> set (get_history ?T0 12 22).
      t_lastspike ?s + axonal_delay ?cp - (t + (delay (base ?s) - axonal_delay ?cp)) < - ?eps"
    unfolding h0 by (simp add: ex_defs)
  have "\<exists>r. send ?eps ?e ?cp ?T0 ?s = Inr r"
    unfolding send_def Let_def lo hi facilitate_loop_ok[OF ok] by simp
  then obtain s1 T0' d1 where fwd: "send ?eps ?e ?cp ?T0 ?s = Inr (s1, T0', d1)"
    by (metis prod_cases3)
  from send_Inr_D[OF fwd] obtain a where
    enq: "synapses_to_check T0' = synapses_to_check ?T0 @ [a]" and tl: "a_t_lastspike a = 10"
    by (auto simp add: ex_defs add_synapse_to_check_def)
  have full: "get_history ?T1
      (t_lastspike ?s - (delay (base ?s) - axonal_delay ?cp) + axonal_delay ?cp)
      (stamp ?e - (delay (base ?s) - axonal_delay ?cp) + axonal_delay ?cp)
    = get_history ?T0
      (t_lastspike ?s - (delay (base ?s) - axonal_delay ?cp) + axonal_delay ?cp)
      (stamp ?e - (delay (base ?s) - axonal_delay ?cp) + axonal_delay ?cp) @ [21]"
    unfolding lo hi h0 h1 by simp
  have base1: "base s1 = base ?s" using send_base[OF fwd] .
  have "adjust_weight ?eps a 21 ?cp ?T1 s1 \<noteq> Inl AssertionFailed"
    unfolding adjust_weight_def Let_def base1 tl by (simp add: ex_defs)
  with correction_matches_full_information[OF wf fwd enq full]
  obtain s2 a' d2 T1' dF where
    "adjust_weight ?eps a 21 ?cp ?T1 s1 = Inr (s2, a', d2)"
    "send ?eps ?e ?cp ?T1 ?s = Inr (s2, T1', dF)"
    "d_weight d2 = weight s2 - weight s1"
    by blast
  with wf fwd enq h0 h1 show ?thesis by auto
qed

text \<open>
  C1 fails on the program, which computes in \<^verbatim>\<open>double\<close>. With \<open>tau_plus = 20\<close>, a trace of 1
  and a forward update 740 ms after the last presynaptic spike, \<open>send\<close> stores
  \<open>Kplus * exp (- 37) + 1.0\<close>; since \<open>exp (- 37) < 2\<^sup>-\<^sup>5\<^sup>3\<close>, half the spacing of the doubles
  at 1, the stored trace is exactly 1. From that stored trace \<open>adjust_weight\<close>, invoked once
  with the enqueued entry and a missing spike at 13 ms, derives a corrected trace of 0,
  facilitates nothing and leaves the weight at \<open>3979 / 4000\<close> with a correction event of 0,
  whereas the single forward update that has the spike at 13 ms in its window returns the
  greater weight \<open>3979 / 4000 * (1 + exp (- 1 / 20) / 100)\<close>.
\<close>

theorem correction_after_absorbed_trace:
  "exp (- 37 :: real) < 1 / 2 ^ 53
 \<and> send (1 / 1000000) (ex_event 750) ex_cp_ax (ex_target [] (1 / 2)) (ex_syn 4)
     = Inr ((ex_syn 4)\<lparr>weight := 3979 / 4000, Kplus := exp (- 37) + 1, t_lastspike := 750\<rparr>,
            (ex_target [] (1 / 2))\<lparr>synapses_to_check :=
               [\<lparr>a_t_lastspike = 10, old_weight = 1, t_received = 752,
                 tid = 0, syn_id = 5, lcid = 7\<rparr>]\<rparr>,
            \<lparr>d_stamp = 750, d_weight = 3979 / 4000, d_delay_steps = 10, d_rport = 0\<rparr>)
 \<and> get_history (ex_target [13] (1 / 2)) 12 752
     = get_history (ex_target [] (1 / 2)) 12 752 @ [13]
 \<and> adjust_weight (1 / 1000000)
       \<lparr>a_t_lastspike = 10, old_weight = 1, t_received = 752, tid = 0, syn_id = 5, lcid = 7\<rparr>
       13 ex_cp_ax (ex_target [13] (1 / 2))
       ((ex_syn 4)\<lparr>weight := 3979 / 4000, Kplus := 1, t_lastspike := 750\<rparr>)
     = Inr ((ex_syn 4)\<lparr>weight := 3979 / 4000, Kplus := 1, t_lastspike := 750\<rparr>,
            \<lparr>a_t_lastspike = 10, old_weight = 1, t_received = 752,
             tid = 0, syn_id = 5, lcid = 7\<rparr>,
            \<lparr>d_stamp = 750, d_weight = 0, d_delay_steps = 10, d_rport = 0\<rparr>)
 \<and> send (1 / 1000000) (ex_event 750) ex_cp_ax (ex_target [13] (1 / 2)) (ex_syn 4)
     = Inr ((ex_syn 4)\<lparr>weight := 3979 / 4000 * (1 + exp (- (1 / 20)) / 100),
                        Kplus := exp (- 37) + 1, t_lastspike := 750\<rparr>,
            (ex_target [13] (1 / 2))\<lparr>synapses_to_check :=
               [\<lparr>a_t_lastspike = 10, old_weight = 1 + exp (- (1 / 20)) / 100, t_received = 752,
                 tid = 0, syn_id = 5, lcid = 7\<rparr>]\<rparr>,
            \<lparr>d_stamp = 750, d_weight = 3979 / 4000 * (1 + exp (- (1 / 20)) / 100),
             d_delay_steps = 10, d_rport = 0\<rparr>)
 \<and> (3979 / 4000 :: real) < 3979 / 4000 * (1 + exp (- (1 / 20)) / 100)"
proof -
  have pos: "0 < 1 + exp (- (1 / 20) :: real) / 100"
    by (simp add: add_pos_pos)
  have dep: "depress (1 + exp (- (1 / 20)) / 100) (1 / 2) ex_cp_ax
      = 3979 / 4000 * (1 + exp (- (1 / 20)) / 100)"
  proof -
    define W :: real where "W = 1 + exp (- (1 / 20)) / 100"
    have la: "lambda ex_cp_ax = 1 / 100" "alpha ex_cp_ax = 105 / 100" by (simp_all add: ex_defs)
    have W: "0 < W" using pos unfolding W_def .
    have eq: "W - 1 / 100 * (105 / 100) * W * (1 / 2) = 3979 / 4000 * W" by simp
    have "depress W (1 / 2) ex_cp_ax = 3979 / 4000 * W"
      unfolding depress_def Let_def la eq using W by simp
    then show ?thesis unfolding W_def .
  qed
  have fac: "facilitate 1 (1 * exp ((10 + 3 - (13 + 1)) * (1 / 20))) ex_cp_ax
      = 1 + exp (- (1 / 20)) / 100"
    by (simp add: facilitate_def std_pow_def ex_defs)
  have a: "send (1 / 1000000) (ex_event 750) ex_cp_ax (ex_target [] (1 / 2)) (ex_syn 4)
     = Inr ((ex_syn 4)\<lparr>weight := 3979 / 4000, Kplus := exp (- 37) + 1, t_lastspike := 750\<rparr>,
            (ex_target [] (1 / 2))\<lparr>synapses_to_check :=
               [\<lparr>a_t_lastspike = 10, old_weight = 1, t_received = 752,
                 tid = 0, syn_id = 5, lcid = 7\<rparr>]\<rparr>,
            \<lparr>d_stamp = 750, d_weight = 3979 / 4000, d_delay_steps = 10, d_rport = 0\<rparr>)"
    by (simp add: send_def get_history_def get_K_value_def add_synapse_to_check_def depress_def
        Let_def ex_defs)
  have h: "get_history (ex_target [13] (1 / 2)) 12 752
     = get_history (ex_target [] (1 / 2)) 12 752 @ [13]"
    by (simp add: get_history_def ex_defs)
  have b: "adjust_weight (1 / 1000000)
       \<lparr>a_t_lastspike = 10, old_weight = 1, t_received = 752, tid = 0, syn_id = 5, lcid = 7\<rparr>
       13 ex_cp_ax (ex_target [13] (1 / 2))
       ((ex_syn 4)\<lparr>weight := 3979 / 4000, Kplus := 1, t_lastspike := 750\<rparr>)
     = Inr ((ex_syn 4)\<lparr>weight := 3979 / 4000, Kplus := 1, t_lastspike := 750\<rparr>,
            \<lparr>a_t_lastspike = 10, old_weight = 1, t_received = 752,
             tid = 0, syn_id = 5, lcid = 7\<rparr>,
            \<lparr>d_stamp = 750, d_weight = 0, d_delay_steps = 10, d_rport = 0\<rparr>)"
    by (simp add: adjust_weight_def get_K_value_def facilitate_def depress_def Let_def ex_defs)
  have loop: "facilitate_loop (1 / 1000000) ex_cp_ax 10 1 1 [13] 1
      = Inr (1 + exp (- (1 / 20)) / 100)"
    using fac by (simp add: Let_def ex_defs)
  have c: "send (1 / 1000000) (ex_event 750) ex_cp_ax (ex_target [13] (1 / 2)) (ex_syn 4)
     = Inr ((ex_syn 4)\<lparr>weight := 3979 / 4000 * (1 + exp (- (1 / 20)) / 100),
                        Kplus := exp (- 37) + 1, t_lastspike := 750\<rparr>,
            (ex_target [13] (1 / 2))\<lparr>synapses_to_check :=
               [\<lparr>a_t_lastspike = 10, old_weight = 1 + exp (- (1 / 20)) / 100, t_received = 752,
                 tid = 0, syn_id = 5, lcid = 7\<rparr>]\<rparr>,
            \<lparr>d_stamp = 750, d_weight = 3979 / 4000 * (1 + exp (- (1 / 20)) / 100),
             d_delay_steps = 10, d_rport = 0\<rparr>)"
  proof -
    have w: "get_history (ex_target [13] (1 / 2))
        (t_lastspike (ex_syn 4) - (delay (base (ex_syn 4)) - axonal_delay ex_cp_ax)
           + axonal_delay ex_cp_ax)
        (stamp (ex_event 750) - (delay (base (ex_syn 4)) - axonal_delay ex_cp_ax)
           + axonal_delay ex_cp_ax) = [13]"
      by (simp add: get_history_def ex_defs)
    have l: "facilitate_loop (1 / 1000000) ex_cp_ax (t_lastspike (ex_syn 4)) (Kplus (ex_syn 4))
        (delay (base (ex_syn 4)) - axonal_delay ex_cp_ax) [13] (weight (ex_syn 4))
      = Inr (1 + exp (- (1 / 20)) / 100)"
      using loop by (simp add: ex_defs)
    have k: "get_K_value (ex_target [13] (1 / 2))
        (stamp (ex_event 750) + axonal_delay ex_cp_ax
          - (delay (base (ex_syn 4)) - axonal_delay ex_cp_ax)) = 1 / 2"
      by (simp add: get_K_value_def ex_defs)
    show ?thesis
      unfolding send_def Let_def w l k dep sum.case
      by (simp add: add_synapse_to_check_def ex_defs)
  qed
  have gt: "(3979 / 4000 :: real) < 3979 / 4000 * (1 + exp (- (1 / 20)) / 100)"
    by simp
  from exp_minus_37_upper a h b c gt show ?thesis by (simp only: simp_thms)
qed

section \<open>The forward update\<close>

text \<open>
  C2. When every spike of the window passes the assertion, \<open>send\<close> returns the connection
  that the specification's forward update describes: the history is queried over
  \<open>(t_lastspike - dendritic_delay + axonal_delay, t_spike - dendritic_delay + axonal_delay]\<close>,
  the weight is facilitated once per returned spike in the order returned (increasing
  time for a sorted history) with
  \<open>w + lambda * w^mu * Kplus * exp (minus_dt / tau_plus)\<close>, then depressed to
  \<open>max 0 (w - lambda * alpha * w * K_minus)\<close> with the trace sampled at
  \<open>t_spike + axonal_delay - dendritic_delay\<close>, then \<open>Kplus\<close> becomes
  \<open>Kplus * exp ((t_lastspike - t_spike) / tau_plus) + 1\<close> and \<open>t_lastspike\<close> becomes
  \<open>t_spike\<close>. The delivered event carries the new weight.
\<close>

theorem send_forward_update:
  assumes wf: "tau_plus_inv cp = 1 / tau_plus cp"
    and ok: "\<forall>t_post \<in> set (get_history target
                 (t_lastspike s - (delay (base s) - axonal_delay cp) + axonal_delay cp)
                 (stamp e - (delay (base s) - axonal_delay cp) + axonal_delay cp)).
               t_lastspike s + axonal_delay cp
                 - (t_post + (delay (base s) - axonal_delay cp)) < - eps"
  shows "\<exists>target' d. send eps e cp target s = Inr (spec_forward_update e cp target s, target', d)
           \<and> d_weight d = weight (spec_forward_update e cp target s)
           \<and> (sorted (history target) \<longrightarrow>
                sorted (get_history target
                  (t_lastspike s - (delay (base s) - axonal_delay cp) + axonal_delay cp)
                  (stamp e - (delay (base s) - axonal_delay cp) + axonal_delay cp)))"
proof -
  let ?dd = "delay (base s) - axonal_delay cp"
  let ?posts = "get_history target (t_lastspike s - ?dd + axonal_delay cp)
                  (stamp e - ?dd + axonal_delay cp)"
  have loop: "facilitate_loop eps cp (t_lastspike s) (Kplus s) ?dd ?posts (weight s)
      = Inr (foldl (\<lambda>w t_post. w + lambda cp * std_pow w (mu cp) * Kplus s
            * exp ((t_lastspike s + axonal_delay cp - (t_post + ?dd)) / tau_plus cp))
          (weight s) ?posts)"
    unfolding facilitate_loop_ok[OF ok] foldl_facilitate_spec[OF wf] ..
  have "\<exists>target' d. send eps e cp target s = Inr (spec_forward_update e cp target s, target', d)
           \<and> d_weight d = weight (spec_forward_update e cp target s)"
    unfolding send_def spec_forward_update_def Let_def loop
    by (simp add: depress_max wf)
  then show ?thesis using sorted_get_history by blast
qed

theorem send_forward_update_witness:
  "tau_plus_inv ex_cp = 1 / tau_plus ex_cp
 \<and> get_history (ex_target [15] (1 / 2)) 9 19 = [15]
 \<and> t_lastspike (ex_syn 1) + axonal_delay ex_cp
      - (15 + (delay (base (ex_syn 1)) - axonal_delay ex_cp)) < - (1 / 1000000)
 \<and> (\<exists>target' d.
       send (1 / 1000000) (ex_event 20) ex_cp (ex_target [15] (1 / 2)) (ex_syn 1)
         = Inr (spec_forward_update (ex_event 20) ex_cp (ex_target [15] (1 / 2)) (ex_syn 1),
                target', d)
     \<and> d_weight d
         = weight (spec_forward_update (ex_event 20) ex_cp (ex_target [15] (1 / 2)) (ex_syn 1)))
 \<and> Kplus (spec_forward_update (ex_event 20) ex_cp (ex_target [15] (1 / 2)) (ex_syn 1))
     = exp (- (1 / 2)) + 1
 \<and> t_lastspike (spec_forward_update (ex_event 20) ex_cp (ex_target [15] (1 / 2)) (ex_syn 1))
     = 20
 \<and> sorted (history (ex_target [15] (1 / 2)))"
proof -
  let ?T = "ex_target [15] (1 / 2)" and ?s = "ex_syn 1" and ?e = "ex_event 20"
  have srt: "sorted (history ?T)" by (simp add: ex_defs)
  have wf: "tau_plus_inv ex_cp = 1 / tau_plus ex_cp" by (simp add: ex_defs)
  have lo: "t_lastspike ?s - (delay (base ?s) - axonal_delay ex_cp) + axonal_delay ex_cp = 9"
    and hi: "stamp ?e - (delay (base ?s) - axonal_delay ex_cp) + axonal_delay ex_cp = 19"
    by (simp_all add: ex_defs)
  have h: "get_history ?T 9 19 = [15]" by (simp add: get_history_def ex_defs)
  have a15: "t_lastspike ?s + axonal_delay ex_cp
      - (15 + (delay (base ?s) - axonal_delay ex_cp)) < - (1 / 1000000)"
    by (simp add: ex_defs)
  have ok: "\<forall>t_post \<in> set (get_history ?T
        (t_lastspike ?s - (delay (base ?s) - axonal_delay ex_cp) + axonal_delay ex_cp)
        (stamp ?e - (delay (base ?s) - axonal_delay ex_cp) + axonal_delay ex_cp)).
      t_lastspike ?s + axonal_delay ex_cp
        - (t_post + (delay (base ?s) - axonal_delay ex_cp)) < - (1 / 1000000)"
    unfolding lo hi h using a15 by simp
  have k: "Kplus (spec_forward_update ?e ex_cp ?T ?s) = exp (- (1 / 2)) + 1"
    and t: "t_lastspike (spec_forward_update ?e ex_cp ?T ?s) = 20"
    by (simp_all add: spec_forward_update_def Let_def ex_defs)
  from send_forward_update[OF wf ok] wf h a15 k t srt show ?thesis by blast
qed

section \<open>The correction step by step\<close>



section \<open>The weight stays non-negative\<close>

text \<open>
  C4. The weight is non-negative after every forward update and after every correction,
  and so is the weight of the delivered spike event: depression clamps at zero. With a
  non-negative learning rate, weight, exponent and trace, a facilitation step adds a
  non-negative term, and the facilitation loop of a forward update does not lower the
  weight.
\<close>

theorem weight_nonneg:
  "(send eps e cp target s = Inr (s', target', d) \<longrightarrow> 0 \<le> weight s' \<and> 0 \<le> d_weight d)
 \<and> (adjust_weight eps a missing_spike cp target s = Inr (s'', a', d') \<longrightarrow> 0 \<le> weight s'')
 \<and> 0 \<le> depress w kminus cp
 \<and> (0 \<le> lambda cp \<and> 0 \<le> w \<and> 0 \<le> mu cp \<and> 0 \<le> kplus \<longrightarrow> w \<le> facilitate w kplus cp)
 \<and> (0 \<le> lambda cp \<and> 0 \<le> weight s \<and> 0 \<le> mu cp \<and> 0 \<le> Kplus s
      \<and> facilitate_loop eps cp (t_lastspike s) (Kplus s) dd ts (weight s) = Inr w1
      \<longrightarrow> weight s \<le> w1)"
proof (intro conjI impI)
  assume h: "send eps e cp target s = Inr (s', target', d)"
  from send_Inr_D[OF h] show "0 \<le> weight s'" by (auto simp add: depress_nonneg)
  from send_Inr_D[OF h] show "0 \<le> d_weight d" by (auto simp add: depress_nonneg)
next
  assume h: "adjust_weight eps a missing_spike cp target s = Inr (s'', a', d')"
  from adjust_weight_Inr_D[OF h] show "0 \<le> weight s''" by (simp add: depress_nonneg)
next
  show "0 \<le> depress w kminus cp" by (rule depress_nonneg)
next
  assume "0 \<le> lambda cp \<and> 0 \<le> w \<and> 0 \<le> mu cp \<and> 0 \<le> kplus"
  then show "w \<le> facilitate w kplus cp" by (simp add: facilitate_mono)
next
  assume "0 \<le> lambda cp \<and> 0 \<le> weight s \<and> 0 \<le> mu cp \<and> 0 \<le> Kplus s
      \<and> facilitate_loop eps cp (t_lastspike s) (Kplus s) dd ts (weight s) = Inr w1"
  then show "weight s \<le> w1" using facilitate_loop_mono by blast
qed

theorem weight_nonneg_witness:
  "\<exists>s' target' d s'' a' d' w1.
     send (1 / 1000000) (ex_event 20) ex_cp (ex_target [15] (1 / 2)) (ex_syn 1)
       = Inr (s', target', d)
   \<and> 0 \<le> weight s' \<and> 0 \<le> d_weight d
   \<and> adjust_weight (1 / 1000000) ex_entry 21 ex_cp_ax (ex_target [15, 21] (1 / 2))
        ((ex_syn 4)\<lparr>Kplus := 2, t_lastspike := 20\<rparr>) = Inr (s'', a', d')
   \<and> 0 \<le> weight s''
   \<and> 0 \<le> depress 1 200 ex_cp
   \<and> 1 \<le> facilitate 1 1 ex_cp
   \<and> facilitate_loop (1 / 1000000) ex_cp (t_lastspike (ex_syn 1)) (Kplus (ex_syn 1)) 1 [15]
        (weight (ex_syn 1)) = Inr w1
   \<and> weight (ex_syn 1) \<le> w1"
proof -
  let ?T = "ex_target [15] (1 / 2)" and ?s = "ex_syn 1" and ?e = "ex_event 20"
  let ?s2 = "(ex_syn 4)\<lparr>Kplus := 2, t_lastspike := 20\<rparr>" and ?T2 = "ex_target [15, 21] (1 / 2)"
  have "\<exists>r. facilitate_loop (1 / 1000000) ex_cp (t_lastspike ?s) (Kplus ?s) 1 [15] (weight ?s)
          = Inr r"
    by (simp add: ex_defs)
  then obtain w1 where
    loop: "facilitate_loop (1 / 1000000) ex_cp (t_lastspike ?s) (Kplus ?s) 1 [15] (weight ?s)
             = Inr w1" ..
  have "\<exists>r. send (1 / 1000000) ?e ex_cp ?T ?s = Inr r"
    unfolding send_def Let_def by (simp add: ex_defs get_history_def)
  then obtain s' target' d where fwd: "send (1 / 1000000) ?e ex_cp ?T ?s = Inr (s', target', d)"
    by (metis prod_cases3)
  have "\<exists>r. adjust_weight (1 / 1000000) ex_entry 21 ex_cp_ax ?T2 ?s2 = Inr r"
    unfolding adjust_weight_def Let_def by (simp add: ex_defs)
  then obtain s'' a' d' where
    adj: "adjust_weight (1 / 1000000) ex_entry 21 ex_cp_ax ?T2 ?s2 = Inr (s'', a', d')"
    by (metis prod_cases3)
  have par: "0 \<le> lambda ex_cp \<and> 0 \<le> (1::real) \<and> 0 \<le> mu ex_cp \<and> 0 \<le> (1::real)"
    by (simp add: ex_defs)
  have par2: "0 \<le> lambda ex_cp \<and> 0 \<le> weight ?s \<and> 0 \<le> mu ex_cp \<and> 0 \<le> Kplus ?s"
    by (simp add: ex_defs)
  from weight_nonneg[of "1 / 1000000" ?e ex_cp ?T ?s s' target' d _ _ _ _ _ 1 200 1 1 "[15]" w1]
    fwd loop par par2
  have one: "0 \<le> weight s' \<and> 0 \<le> d_weight d
      \<and> 0 \<le> depress 1 200 ex_cp \<and> 1 \<le> facilitate 1 1 ex_cp \<and> weight ?s \<le> w1"
    by blast
  from weight_nonneg[of "1 / 1000000" _ ex_cp_ax ?T2 ?s2 _ _ _ ex_entry 21 s'' a' d'] adj
  have two: "0 \<le> weight s''" by blast
  with one fwd adj loop show ?thesis by blast
qed

section \<open>The assertion on minus_dt\<close>

text \<open>
  C5, as stated, fails: a spike strictly inside the window
  \<open>(t_lastspike - dendritic_delay + axonal_delay, t_spike - dendritic_delay + axonal_delay]\<close>
  but within \<open>stdp_eps\<close> of its lower bound fails the assertion, in \<open>send\<close> and in
  \<open>adjust_weight\<close>. Here the window is \<open>(12, 22]\<close>, \<open>stdp_eps\<close> is \<open>10\<^sup>-\<^sup>6\<close> and the spike
  is at \<open>12 + 5 * 10\<^sup>-\<^sup>7\<close>.
\<close>

theorem assertion_margin_counterexample:
  "get_history (ex_target [24000001 / 2000000] (1 / 2)) 12 22 = [24000001 / 2000000]
 \<and> t_lastspike (ex_syn 4) - (delay (base (ex_syn 4)) - axonal_delay ex_cp_ax)
      + axonal_delay ex_cp_ax = 12
 \<and> stamp (ex_event 20) - (delay (base (ex_syn 4)) - axonal_delay ex_cp_ax)
      + axonal_delay ex_cp_ax = 22
 \<and> (12::real) < 24000001 / 2000000 \<and> (24000001 / 2000000 :: real) \<le> 22
 \<and> send (1 / 1000000) (ex_event 20) ex_cp_ax (ex_target [24000001 / 2000000] (1 / 2)) (ex_syn 4)
     = Inl AssertionFailed
 \<and> a_t_lastspike ex_entry = t_lastspike (ex_syn 4)
 \<and> adjust_weight (1 / 1000000) ex_entry (24000001 / 2000000) ex_cp_ax
       (ex_target [24000001 / 2000000] (1 / 2)) ((ex_syn 4)\<lparr>Kplus := 2, t_lastspike := 20\<rparr>)
     = Inl AssertionFailed"
  by (simp add: send_def adjust_weight_def get_history_def Let_def ex_defs)

text \<open>
  C5, amended. Both facilitation steps assert \<open>minus_dt < - stdp_eps\<close> before they change
  the weight, and a violation aborts the run. When every spike that the history returns,
  and the confirmed spike of a correction, is later than the lower bound
  \<open>t_lastspike - dendritic_delay + axonal_delay\<close> of the window by more than \<open>stdp_eps\<close>, the
  call returns; a spike within \<open>stdp_eps\<close> of that bound aborts it.
\<close>

theorem assertion_unreachable_beyond_eps:
  fixes s :: stdp_pl_synapse_hom_ax_delay and cp :: STDPPLHomAxDelayCommonProperties
    and e :: Event
  defines "dd \<equiv> delay (base s) - axonal_delay cp"
  defines "lo \<equiv> t_lastspike s - dd + axonal_delay cp"
  defines "hi \<equiv> stamp e - dd + axonal_delay cp"
  shows "((\<forall>t_post \<in> set (get_history target lo hi). lo + eps < t_post)
            \<longrightarrow> (\<exists>r. send eps e cp target s = Inr r))
       \<and> ((\<exists>t_post \<in> set (get_history target lo hi). t_post \<le> lo + eps)
            \<longrightarrow> send eps e cp target s = Inl AssertionFailed)
       \<and> (a_t_lastspike a - dd + axonal_delay cp + eps < missing_spike
            \<longrightarrow> (\<exists>r. adjust_weight eps a missing_spike cp target s = Inr r))
       \<and> (missing_spike \<le> a_t_lastspike a - dd + axonal_delay cp + eps
            \<longrightarrow> adjust_weight eps a missing_spike cp target s = Inl AssertionFailed)"
proof (intro conjI impI)
  assume "\<forall>t_post \<in> set (get_history target lo hi). lo + eps < t_post"
  then have "\<forall>t \<in> set (get_history target lo hi).
               t_lastspike s + axonal_delay cp - (t + dd) < - eps"
    unfolding lo_def by auto
  from facilitate_loop_ok[OF this]
  show "\<exists>r. send eps e cp target s = Inr r"
    unfolding send_def Let_def dd_def[symmetric] lo_def[symmetric] hi_def[symmetric] by simp
next
  assume "\<exists>t_post \<in> set (get_history target lo hi). t_post \<le> lo + eps"
  then have "\<exists>t \<in> set (get_history target lo hi).
               \<not> t_lastspike s + axonal_delay cp - (t + dd) < - eps"
    unfolding lo_def by (force elim!: bexE intro!: bexI)
  from facilitate_loop_abort[OF this]
  show "send eps e cp target s = Inl AssertionFailed"
    unfolding send_def Let_def dd_def[symmetric] lo_def[symmetric] hi_def[symmetric] by simp
next
  assume "a_t_lastspike a - dd + axonal_delay cp + eps < missing_spike"
  then show "\<exists>r. adjust_weight eps a missing_spike cp target s = Inr r"
    unfolding adjust_weight_def Let_def dd_def by simp
next
  assume "missing_spike \<le> a_t_lastspike a - dd + axonal_delay cp + eps"
  then show "adjust_weight eps a missing_spike cp target s = Inl AssertionFailed"
    unfolding adjust_weight_def Let_def dd_def by simp
qed

theorem assertion_unreachable_beyond_eps_witness:
  "get_history (ex_target [15, 21] (1 / 2)) 12 22 = [15, 21]
 \<and> (12 + 1 / 1000000 :: real) < 15 \<and> (12 + 1 / 1000000 :: real) < 21
 \<and> (\<exists>r. send (1 / 1000000) (ex_event 20) ex_cp_ax (ex_target [15, 21] (1 / 2)) (ex_syn 4)
            = Inr r)
 \<and> (\<exists>r. adjust_weight (1 / 1000000) ex_entry 21 ex_cp_ax (ex_target [15, 21] (1 / 2))
            (ex_syn 4) = Inr r)
 \<and> get_history (ex_target [24000001 / 2000000] (1 / 2)) 12 22 = [24000001 / 2000000]
 \<and> (24000001 / 2000000 :: real) \<le> 12 + 1 / 1000000
 \<and> send (1 / 1000000) (ex_event 20) ex_cp_ax (ex_target [24000001 / 2000000] (1 / 2)) (ex_syn 4)
     = Inl AssertionFailed
 \<and> adjust_weight (1 / 1000000) ex_entry (24000001 / 2000000) ex_cp_ax
       (ex_target [24000001 / 2000000] (1 / 2)) (ex_syn 4)
     = Inl AssertionFailed"
proof -
  let ?s = "ex_syn 4" and ?e = "ex_event 20" and ?eps = "1 / 1000000 :: real"
  let ?T = "ex_target [15, 21] (1 / 2)" and ?U = "ex_target [24000001 / 2000000] (1 / 2)"
  have lo: "t_lastspike ?s - (delay (base ?s) - axonal_delay ex_cp_ax) + axonal_delay ex_cp_ax = 12"
    and hi: "stamp ?e - (delay (base ?s) - axonal_delay ex_cp_ax) + axonal_delay ex_cp_ax = 22"
    and lo': "a_t_lastspike ex_entry - (delay (base ?s) - axonal_delay ex_cp_ax)
                + axonal_delay ex_cp_ax = 12"
    by (simp_all add: ex_defs)
  have hT: "get_history ?T 12 22 = [15, 21]" and hU: "get_history ?U 12 22 = [24000001 / 2000000]"
    by (simp_all add: get_history_def ex_defs)
  note pass = assertion_unreachable_beyond_eps[of ?T ?s ex_cp_ax ?e ?eps ex_entry 21,
      unfolded lo hi lo' hT]
  note fail = assertion_unreachable_beyond_eps[of ?U ?s ex_cp_ax ?e ?eps ex_entry
      "24000001 / 2000000", unfolded lo hi lo' hU]
  have all_in: "\<forall>t_post \<in> set [15, 21]. 12 + ?eps < t_post" by simp
  have one_out: "\<exists>t_post \<in> set [24000001 / 2000000]. t_post \<le> 12 + ?eps"
    by (rule bexI[of _ "24000001 / 2000000"]) simp_all
  have m_in: "12 + ?eps < 21" and m_out: "24000001 / 2000000 \<le> 12 + ?eps" by simp_all
  have p1: "\<exists>r. send ?eps ?e ex_cp_ax ?T ?s = Inr r" using pass all_in by blast
  have p2: "\<exists>r. adjust_weight ?eps ex_entry 21 ex_cp_ax ?T ?s = Inr r"
    using pass m_in by blast
  have f1: "send ?eps ?e ex_cp_ax ?U ?s = Inl AssertionFailed" using fail one_out by blast
  have f2: "adjust_weight ?eps ex_entry (24000001 / 2000000) ex_cp_ax ?U ?s = Inl AssertionFailed"
    using fail m_out by blast
  from p1 p2 f1 f2 hT hU show ?thesis by simp
qed

section \<open>When an adjustment entry is registered\<close>

text \<open>
  C6. A forward update registers an adjustment entry with the target if and only if the
  axonal delay is greater than the dendritic delay. The entry holds \<open>t_lastspike\<close> as it
  was before the update, the weight after facilitation and before depression, the time
  \<open>t_spike + axonal_delay - dendritic_delay\<close>, and the sender's spike data. With an axonal
  delay of 0 and a positive total delay, a spike train leaves the target's queue as it
  was.
\<close>

theorem adjustment_entry_iff:
  fixes s :: stdp_pl_synapse_hom_ax_delay and cp :: STDPPLHomAxDelayCommonProperties
    and e :: Event
  defines "dd \<equiv> delay (base s) - axonal_delay cp"
  shows "(send eps e cp target s = Inr (s', target', d) \<and> axonal_delay cp > dd \<longrightarrow>
           (\<exists>a. synapses_to_check target' = synapses_to_check target @ [a]
              \<and> a_t_lastspike a = t_lastspike s
              \<and> facilitate_loop eps cp (t_lastspike s) (Kplus s) dd
                   (get_history target (t_lastspike s - dd + axonal_delay cp)
                      (stamp e - dd + axonal_delay cp)) (weight s) = Inr (old_weight a)
              \<and> weight s' = depress (old_weight a)
                   (get_K_value target (stamp e + axonal_delay cp - dd)) cp
              \<and> t_received a = stamp e + axonal_delay cp - dd
              \<and> (tid a, syn_id a, lcid a) = sender_spike_data e))
       \<and> (send eps e cp target s = Inr (s', target', d) \<and> \<not> axonal_delay cp > dd \<longrightarrow>
           synapses_to_check target' = synapses_to_check target)
       \<and> (send_train eps cp evs s q = Inr (sN, qN, ds) \<and> axonal_delay cp = 0
            \<and> 0 < delay (base s) \<longrightarrow> qN = q)"
proof (intro conjI impI)
  assume h: "send eps e cp target s = Inr (s', target', d) \<and> axonal_delay cp > dd"
  from send_Inr_D[OF conjunct1[OF h]] conjunct2[OF h]
  show "\<exists>a. synapses_to_check target' = synapses_to_check target @ [a]
              \<and> a_t_lastspike a = t_lastspike s
              \<and> facilitate_loop eps cp (t_lastspike s) (Kplus s) dd
                   (get_history target (t_lastspike s - dd + axonal_delay cp)
                      (stamp e - dd + axonal_delay cp)) (weight s) = Inr (old_weight a)
              \<and> weight s' = depress (old_weight a)
                   (get_K_value target (stamp e + axonal_delay cp - dd)) cp
              \<and> t_received a = stamp e + axonal_delay cp - dd
              \<and> (tid a, syn_id a, lcid a) = sender_spike_data e"
    unfolding dd_def by (auto simp add: add_synapse_to_check_def)
next
  assume h: "send eps e cp target s = Inr (s', target', d) \<and> \<not> axonal_delay cp > dd"
  from send_Inr_D[OF conjunct1[OF h]] conjunct2[OF h]
  show "synapses_to_check target' = synapses_to_check target"
    unfolding dd_def by auto
next
  assume "send_train eps cp evs s q = Inr (sN, qN, ds) \<and> axonal_delay cp = 0
            \<and> 0 < delay (base s)"
  then show "qN = q" using send_train_no_entries by blast
qed

theorem adjustment_entry_iff_witness:
  "(\<exists>s' target' d a.
      send (1 / 1000000) (ex_event 20) ex_cp_ax (ex_target [15] (1 / 2)) (ex_syn 4)
        = Inr (s', target', d)
    \<and> axonal_delay ex_cp_ax > delay (base (ex_syn 4)) - axonal_delay ex_cp_ax
    \<and> synapses_to_check target' = [a]
    \<and> a_t_lastspike a = 10 \<and> t_received a = 22 \<and> (tid a, syn_id a, lcid a) = (0, 5, 7)
    \<and> weight s' = depress (old_weight a) (1 / 2) ex_cp_ax)
 \<and> (\<exists>s' target' d.
      send (1 / 1000000) (ex_event 20) ex_cp (ex_target [15] (1 / 2)) (ex_syn 1)
        = Inr (s', target', d)
    \<and> \<not> axonal_delay ex_cp > delay (base (ex_syn 1)) - axonal_delay ex_cp
    \<and> synapses_to_check target' = [])
 \<and> (\<exists>sN qN ds.
      send_train (1 / 1000000) ex_cp
        [(ex_event 20, ex_target [] (1 / 2)), (ex_event 30, ex_target [] (1 / 2))] (ex_syn 1) []
        = Inr (sN, qN, ds)
    \<and> axonal_delay ex_cp = 0 \<and> 0 < delay (base (ex_syn 1)) \<and> qN = [])"
proof -
  let ?eps = "1 / 1000000 :: real" and ?e = "ex_event 20" and ?T = "ex_target [15] (1 / 2)"
  let ?tr = "[(ex_event 20, ex_target [] (1 / 2)), (ex_event 30, ex_target [] (1 / 2))]"
  have "\<exists>r. send ?eps ?e ex_cp_ax ?T (ex_syn 4) = Inr r"
    unfolding send_def Let_def by (simp add: ex_defs get_history_def)
  then obtain s1 t1 d1 where r1: "send ?eps ?e ex_cp_ax ?T (ex_syn 4) = Inr (s1, t1, d1)"
    by (metis prod_cases3)
  have ax: "axonal_delay ex_cp_ax > delay (base (ex_syn 4)) - axonal_delay ex_cp_ax"
    by (simp add: ex_defs)
  from adjustment_entry_iff[of ?eps ?e ex_cp_ax ?T "ex_syn 4" s1 t1 d1] r1 ax
  obtain a where a: "synapses_to_check t1 = synapses_to_check ?T @ [a]"
    "a_t_lastspike a = t_lastspike (ex_syn 4)"
    "t_received a = stamp ?e + axonal_delay ex_cp_ax
        - (delay (base (ex_syn 4)) - axonal_delay ex_cp_ax)"
    "(tid a, syn_id a, lcid a) = sender_spike_data ?e"
    "weight s1 = depress (old_weight a) (get_K_value ?T (stamp ?e + axonal_delay ex_cp_ax
        - (delay (base (ex_syn 4)) - axonal_delay ex_cp_ax))) ex_cp_ax"
    by blast
  have first: "synapses_to_check t1 = [a] \<and> a_t_lastspike a = 10 \<and> t_received a = 22
      \<and> (tid a, syn_id a, lcid a) = (0, 5, 7)
      \<and> weight s1 = depress (old_weight a) (1 / 2) ex_cp_ax"
    using a by (simp add: ex_defs get_K_value_def)
  have "\<exists>r. send ?eps ?e ex_cp ?T (ex_syn 1) = Inr r"
    unfolding send_def Let_def by (simp add: ex_defs get_history_def)
  then obtain s2 t2 d2 where r2: "send ?eps ?e ex_cp ?T (ex_syn 1) = Inr (s2, t2, d2)"
    by (metis prod_cases3)
  have nax: "\<not> axonal_delay ex_cp > delay (base (ex_syn 1)) - axonal_delay ex_cp"
    by (simp add: ex_defs)
  from adjustment_entry_iff[of ?eps ?e ex_cp ?T "ex_syn 1" s2 t2 d2] r2 nax
  have second: "synapses_to_check t2 = []" by (simp add: ex_defs)
  have "no_post_spikes ex_cp ?tr (ex_syn 1)" by (simp add: ex_defs get_history_def)
  from send_train_pure_depression[OF this, of ?eps "[]"] obtain sN qN ds where
    r3: "send_train ?eps ex_cp ?tr (ex_syn 1) [] = Inr (sN, qN, ds)" by blast
  have z: "axonal_delay ex_cp = 0 \<and> 0 < delay (base (ex_syn 1))" by (simp add: ex_defs)
  from adjustment_entry_iff[of ?eps _ ex_cp _ "ex_syn 1" _ _ _ ?tr "[]" sN qN ds] r3 z
  have third: "qN = []" by blast
  from r1 ax first r2 nax second r3 z third show ?thesis by blast
qed

section \<open>An axonal delay greater than the total delay\<close>

text \<open>
  C7. Setting an axonal delay greater than the total delay of the connection is rejected
  as a configuration error; an accepted axonal delay is stored as given and leaves a
  non-negative dendritic delay.
\<close>

theorem axonal_delay_rejected:
  "(total_delay < ad \<longrightarrow> set_axonal_delay total_delay ad cp = Inl BadProperty)
 \<and> (set_axonal_delay total_delay ad cp = Inr cp'
      \<longrightarrow> axonal_delay cp' = ad \<and> 0 \<le> total_delay - axonal_delay cp')"
  by (auto simp add: set_axonal_delay_def)

theorem axonal_delay_rejected_witness:
  "(1::real) < 3 \<and> set_axonal_delay 1 3 ex_cp = Inl BadProperty
 \<and> set_axonal_delay 1 0 ex_cp = Inr ex_cp \<and> (0::real) \<le> 1 - axonal_delay ex_cp"
proof -
  have r: "set_axonal_delay 1 0 ex_cp = Inr ex_cp" by (simp add: set_axonal_delay_def ex_defs)
  from axonal_delay_rejected[of 1 3 ex_cp] axonal_delay_rejected[of 1 0 ex_cp ex_cp] r
  show ?thesis by simp
qed

section \<open>What the correction leaves unchanged\<close>

text \<open>
  C8. \<open>adjust_weight\<close> changes nothing of the connection but its weight, and nothing of the
  entry but its \<open>old_weight\<close>: \<open>Kplus\<close> and \<open>t_lastspike\<close> keep the values of the most
  recent forward update.
\<close>

theorem adjust_weight_frame:
  assumes "adjust_weight eps a missing_spike cp target s = Inr (s', a', d)"
  shows "Kplus s' = Kplus s \<and> t_lastspike s' = t_lastspike s \<and> base s' = base s
       \<and> s' = s\<lparr>weight := weight s'\<rparr>
       \<and> a' = a\<lparr>old_weight := old_weight a'\<rparr>"
  using assms unfolding adjust_weight_def Let_def
  by (auto split: if_splits)

theorem adjust_weight_frame_witness:
  "\<exists>s' a' d.
     adjust_weight (1 / 1000000) ex_entry 21 ex_cp_ax (ex_target [15, 21] (1 / 2))
       ((ex_syn 4)\<lparr>Kplus := 2, t_lastspike := 20\<rparr>) = Inr (s', a', d)
   \<and> Kplus s' = 2 \<and> t_lastspike s' = 20 \<and> base s' = base (ex_syn 4)
   \<and> a_t_lastspike a' = 10 \<and> t_received a' = 22"
proof -
  let ?s = "(ex_syn 4)\<lparr>Kplus := 2, t_lastspike := 20\<rparr>" and ?T = "ex_target [15, 21] (1 / 2)"
  have "\<exists>r. adjust_weight (1 / 1000000) ex_entry 21 ex_cp_ax ?T ?s = Inr r"
    unfolding adjust_weight_def Let_def by (simp add: ex_defs)
  then obtain s' a' d where
    run: "adjust_weight (1 / 1000000) ex_entry 21 ex_cp_ax ?T ?s = Inr (s', a', d)"
    by (metis prod_cases3)
  from adjust_weight_frame[OF run]
  have fr: "Kplus s' = Kplus ?s" "t_lastspike s' = t_lastspike ?s" "base s' = base ?s"
    "a' = ex_entry\<lparr>old_weight := old_weight a'\<rparr>" by simp_all
  have "a_t_lastspike a' = 10 \<and> t_received a' = 22"
    by (subst fr(4), simp add: ex_defs, subst fr(4), simp add: ex_defs)
  with fr(1-3) run show ?thesis by (simp add: ex_defs)
qed

section \<open>Forward updates without postsynaptic spikes\<close>

text \<open>
  C9, as stated, fails: a target that never spikes has no spikes in its history and a
  trace of 0, and two forward updates of a new connection leave the weight at 1.
\<close>

theorem strictly_decreasing_counterexample:
  "no_post_spikes ex_cp [(ex_event 10, ex_target [] 0), (ex_event 20, ex_target [] 0)]
     (default_synapse \<lparr>delay = 1, delay_steps = 10, rport = 0\<rparr>)
 \<and> weight (default_synapse \<lparr>delay = 1, delay_steps = 10, rport = 0\<rparr>) = 1
 \<and> send_train (1 / 1000000) ex_cp
      [(ex_event 10, ex_target [] 0), (ex_event 20, ex_target [] 0)]
      (default_synapse \<lparr>delay = 1, delay_steps = 10, rport = 0\<rparr>) []
    = Inr (\<lparr>base = \<lparr>delay = 1, delay_steps = 10, rport = 0\<rparr>, weight = 1,
            Kplus = exp (- (1 / 2)) + 1, t_lastspike = 20\<rparr>,
           [],
           [\<lparr>d_stamp = 10, d_weight = 1, d_delay_steps = 10, d_rport = 0\<rparr>,
            \<lparr>d_stamp = 20, d_weight = 1, d_delay_steps = 10, d_rport = 0\<rparr>])"
  by (simp add: send_def get_history_def get_K_value_def depress_def Let_def default_synapse_def
      ex_defs)

text \<open>
  C9, amended. When the history returns no spikes during a train, every forward update
  succeeds and is a pure depression: the weights delivered are those of
  \<open>w \<mapsto> max 0 (w - lambda * alpha * w * K_minus)\<close>. With a non-negative weight at the start
  and \<open>lambda * alpha * K_minus \<ge> 0\<close> throughout, the weights never increase and stay
  non-negative. One depression of a non-negative weight \<open>w\<close> lowers it if and only if
  \<open>w > 0\<close> and \<open>lambda * alpha * K_minus > 0\<close>.
\<close>

theorem no_post_spikes_pure_depression:
  assumes "no_post_spikes cp evs s"
  shows "\<exists>s' q' ds. send_train eps cp evs s q = Inr (s', q', ds)
           \<and> map d_weight ds = pure_depression cp (delay (base s)) evs (weight s)
           \<and> (0 \<le> weight s
                \<and> (\<forall>(e, target) \<in> set evs. \<forall>t. 0 \<le> lambda cp * alpha cp * K_value target t)
              \<longrightarrow> sorted_wrt (\<ge>) (weight s # map d_weight ds)
                  \<and> (\<forall>v \<in> set (map d_weight ds). 0 \<le> v))
           \<and> (0 \<le> w \<longrightarrow> (depress w k cp < w) = (0 < w \<and> 0 < lambda cp * alpha cp * k))"
proof -
  from send_train_pure_depression[OF assms, of eps q] obtain s' q' ds where
    run: "send_train eps cp evs s q = Inr (s', q', ds)"
    and ws: "map d_weight ds = pure_depression cp (delay (base s)) evs (weight s)" by blast
  have "0 \<le> weight s
          \<and> (\<forall>(e, target) \<in> set evs. \<forall>t. 0 \<le> lambda cp * alpha cp * K_value target t)
        \<longrightarrow> sorted_wrt (\<ge>) (weight s # map d_weight ds)
            \<and> (\<forall>v \<in> set (map d_weight ds). 0 \<le> v)"
    unfolding ws using pure_depression_sorted by blast
  moreover have "0 \<le> w \<longrightarrow> (depress w k cp < w) = (0 < w \<and> 0 < lambda cp * alpha cp * k)"
    using depress_strict by blast
  ultimately show ?thesis using run ws by blast
qed

theorem no_post_spikes_pure_depression_witness:
  "no_post_spikes ex_cp [(ex_event 20, ex_target [] (1 / 2)), (ex_event 30, ex_target [] (1 / 2))]
     (ex_syn 1)
 \<and> (\<exists>s' q' ds.
       send_train (1 / 1000000) ex_cp
         [(ex_event 20, ex_target [] (1 / 2)), (ex_event 30, ex_target [] (1 / 2))] (ex_syn 1) []
         = Inr (s', q', ds)
     \<and> map d_weight ds = [3979 / 4000, 3979 / 4000 * (3979 / 4000)]
     \<and> sorted_wrt (\<ge>) (1 # map d_weight ds))
 \<and> depress 1 (1 / 2) ex_cp < 1"
proof -
  let ?tr = "[(ex_event 20, ex_target [] (1 / 2)), (ex_event 30, ex_target [] (1 / 2))]"
  have nps: "no_post_spikes ex_cp ?tr (ex_syn 1)" by (simp add: ex_defs get_history_def)
  have pos: "0 \<le> weight (ex_syn 1)
      \<and> (\<forall>(e, target) \<in> set ?tr. \<forall>t. 0 \<le> lambda ex_cp * alpha ex_cp * K_value target t)"
    by (simp add: ex_defs)
  have pd: "pure_depression ex_cp (delay (base (ex_syn 1))) ?tr (weight (ex_syn 1))
      = [3979 / 4000, 3979 / 4000 * (3979 / 4000)]"
    by (simp add: Let_def get_K_value_def ex_defs)
  from no_post_spikes_pure_depression[OF nps, of "1 / 1000000" "[]" 1 "1 / 2"] obtain s' q' ds
    where run: "send_train (1 / 1000000) ex_cp ?tr (ex_syn 1) [] = Inr (s', q', ds)"
      and ws: "map d_weight ds = pure_depression ex_cp (delay (base (ex_syn 1))) ?tr
                 (weight (ex_syn 1))"
      and mono: "0 \<le> weight (ex_syn 1)
          \<and> (\<forall>(e, target) \<in> set ?tr. \<forall>t. 0 \<le> lambda ex_cp * alpha ex_cp * K_value target t)
        \<longrightarrow> sorted_wrt (\<ge>) (weight (ex_syn 1) # map d_weight ds)
            \<and> (\<forall>v \<in> set (map d_weight ds). 0 \<le> v)"
      and strict: "0 \<le> (1::real) \<longrightarrow>
          (depress 1 (1 / 2) ex_cp < 1) = (0 < (1::real) \<and> 0 < lambda ex_cp * alpha ex_cp * (1 / 2))"
    by blast
  have s: "sorted_wrt (\<ge>) (1 # map d_weight ds)"
    using mono pos by (simp add: ex_defs)
  have st: "depress 1 (1 / 2) ex_cp < 1" using strict by (simp add: ex_defs)
  have e: "map d_weight ds = [3979 / 4000, 3979 / 4000 * (3979 / 4000)]"
    using ws pd by (rule trans)
  have "\<exists>s' q' ds.
       send_train (1 / 1000000) ex_cp ?tr (ex_syn 1) [] = Inr (s', q', ds)
     \<and> map d_weight ds = [3979 / 4000, 3979 / 4000 * (3979 / 4000)]
     \<and> sorted_wrt (\<ge>) (1 # map d_weight ds)"
    by (rule exI[of _ s'], rule exI[of _ q'], rule exI[of _ ds]) (rule conjI[OF run conjI[OF e s]])
  then show ?thesis using nps st by (simp only: simp_thms)
qed

section \<open>The status of a connection\<close>



end
